theory Spec2Isabelle
  imports Main
begin

section \<open>Deadline classifier (src/pages/ProposalDetailPage.tsx)\<close>

text \<open>
  Times are the integer millisecond counts that \<^verbatim>\<open>Date.getTime()\<close> returns. The
  functions of the source read the clock with \<^verbatim>\<open>new Date()\<close>; here the current
  time is the explicit first argument \<open>now\<close>. \<^verbatim>\<open>Math.floor(a / b)\<close> for a positive
  divisor is \<open>div\<close> on \<open>int\<close>, which rounds towards minus infinity as well. A deadline
  string that does not parse (a \<^verbatim>\<open>NaN\<close> time value) is not a timestamp and is outside
  the model.
\<close>

type_synonym millis = int

datatype proposal_status = EXPIRED | ENDING_SOON | ACTIVE

text \<open>The strings the source returns for the three results.\<close>

fun status_label :: "proposal_status \<Rightarrow> string" where
  "status_label EXPIRED = ''EXPIRED''"
| "status_label ENDING_SOON = ''ENDING SOON''"
| "status_label ACTIVE = ''ACTIVE''"

definition getProposalStatus :: "millis \<Rightarrow> millis \<Rightarrow> proposal_status" where
  "getProposalStatus now deadline =
     (let diffMs = deadline - now;
          diffHours = diffMs div (1000 * 60 * 60)
      in if diffMs \<le> 0 then EXPIRED
         else if diffHours \<le> 24 then ENDING_SOON
         else ACTIVE)"

definition canCreateSuggestions :: "millis \<Rightarrow> millis \<Rightarrow> bool" where
  "canCreateSuggestions now deadline =
     (let oneHourFromNow = now + 60 * 60 * 1000
      in deadline > oneHourFromNow)"

text \<open>
  Template literals print a number in decimal; the numbers printed here are whole.
\<close>

fun digit_char :: "nat \<Rightarrow> char" where
  "digit_char n = ''0123456789'' ! (n mod 10)"

fun show_nat :: "nat \<Rightarrow> string" where
  "show_nat n =
     (if n < 10 then [digit_char n] else show_nat (n div 10) @ [digit_char (n mod 10)])"

declare show_nat.simps [simp del]

definition show_int :: "int \<Rightarrow> string" where
  "show_int i = (if i < 0 then ''-'' @ show_nat (nat (- i)) else show_nat (nat i))"

definition getTimeRemaining :: "millis \<Rightarrow> millis \<Rightarrow> string" where
  "getTimeRemaining now deadline =
     (let diffMs = deadline - now
      in if diffMs \<le> 0 then ''Voting has ended''
         else
           let diffDays = diffMs div (1000 * 60 * 60 * 24);
               diffHours = diffMs div (1000 * 60 * 60)
           in if diffDays > 0 then
                show_int diffDays @ '' day'' @ (if diffDays = 1 then '''' else ''s'') @ '' left''
              else if diffHours > 0 then
                show_int diffHours @ '' hour'' @ (if diffHours = 1 then '''' else ''s'') @ '' left''
              else
                let diffMinutes = diffMs div (1000 * 60)
                in show_int (max 1 diffMinutes) @ '' minute''
                     @ (if diffMinutes = 1 then '''' else ''s'') @ '' left'')"

text \<open>The unit words a remaining-time string can carry.\<close>

definition time_units :: "string set" where
  "time_units = {''day'', ''days'', ''hour'', ''hours'', ''minute'', ''minutes''}"

section \<open>Server data (the interfaces of the voting and suggestion components)\<close>

text \<open>
  An optional field (\<^verbatim>\<open>voted_option?: number\<close>) is an \<open>option\<close>: \<open>None\<close> is
  \<^verbatim>\<open>undefined\<close>. Strict equality \<^verbatim>\<open>===\<close> of two optional values is then equality
  of the two options, \<^verbatim>\<open>undefined === undefined\<close> included.
\<close>

record user_ref =
  unique_id :: string

record delegate_info = user_ref +
  name :: string

record OrganizationUser = user_ref +
  first_name :: string
  last_name :: string

record ProposalOption =
  option_number :: int
  option_text :: string

record VotingStatus =
  has_voted :: bool
  has_delegated :: bool
  voted_option :: "int option"
  delegate_info :: "delegate_info option"
  selected_option :: "ProposalOption option"
  can_act :: bool
  cooldown_active :: bool

text \<open>
  The response of the voting-status endpoint (\<^verbatim>\<open>VotingStatusData\<close> in VotingPanel.tsx);
  the proposal's identifier, title, deadline and options, which the panel never reads
  from it, are left out.
\<close>

record VotingStatusData =
  time_remaining_seconds :: int
  is_active :: bool
  user_status :: VotingStatus

datatype suggestion_type = delegate | vote_option

record Suggestion =
  suggestion_id :: string
  suggestion_type :: suggestion_type
  target_option_number :: "int option"
  target_user :: "string option"
  created_at :: string

record Proposal =
  proposal_id :: string
  voting_deadline :: millis
  options :: "ProposalOption list option"

section \<open>Suggestion matcher (src/components/suggestion/SuggestionDisplay.tsx)\<close>

definition isSuggestionApplied :: "VotingStatus option \<Rightarrow> Suggestion \<Rightarrow> bool" where
  "isSuggestionApplied userVotingStatus suggestion =
     (case userVotingStatus of
        None \<Rightarrow> False
      | Some st \<Rightarrow>
          (case suggestion_type suggestion of
             vote_option \<Rightarrow>
               has_voted st \<and> voted_option st = target_option_number suggestion
           | delegate \<Rightarrow>
               has_delegated st
               \<and> map_option unique_id (delegate_info st) = target_user suggestion))"

definition isVotingActive :: "millis \<Rightarrow> Proposal \<Rightarrow> bool" where
  "isVotingActive now proposal = (now < voting_deadline proposal)"

text \<open>The \<^verbatim>\<open>disabled\<close> attribute of a suggestion's Apply button.\<close>

definition applyDisabled ::
  "millis \<Rightarrow> Proposal \<Rightarrow> VotingStatus option \<Rightarrow> bool \<Rightarrow> Suggestion \<Rightarrow> bool" where
  "applyDisabled now proposal userVotingStatus isApplying suggestion =
     (let isApplied = isSuggestionApplied userVotingStatus suggestion;
          votingActive = isVotingActive now proposal;
          cooldownActive =
            (case userVotingStatus of None \<Rightarrow> False | Some st \<Rightarrow> cooldown_active st)
      in isApplying \<or> isApplied \<or> \<not> votingActive \<or> (cooldownActive \<and> \<not> isApplied))"

section \<open>Status display (the VotingStatus component)\<close>

datatype status_display =
    Skeleton
  | UnableToLoad
  | VotedFor int string
  | DelegatedTo string string
  | NotParticipated

text \<open>
  \<open>UnableToLoad\<close> is the branch that prints "Unable to load voting status";
  \<open>NotParticipated\<close> the one that prints "You haven't participated yet".
\<close>

definition VotingStatus_render :: "VotingStatus option \<Rightarrow> bool \<Rightarrow> status_display" where
  "VotingStatus_render status loading =
     (if loading then Skeleton
      else case status of
        None \<Rightarrow> UnableToLoad
      | Some st \<Rightarrow>
          (case (has_voted st, selected_option st) of
             (True, Some opt) \<Rightarrow> VotedFor (option_number opt) (option_text opt)
           | _ \<Rightarrow>
             (case (has_delegated st, delegate_info st) of
                (True, Some d) \<Rightarrow> DelegatedTo (unique_id d) (name d)
              | _ \<Rightarrow> NotParticipated)))"

section \<open>Voting panel (src/components/voting/VotingPanel.tsx)\<close>

text \<open>What awaiting the status request can give: an ok response with its JSON body,
  a response that is not ok, or a thrown network error.\<close>

datatype fetch_result = ResponseOk VotingStatusData | ResponseNotOk | NetworkError

record VotingPanel =
  votingStatus :: "VotingStatusData option"
  statusLoading :: bool
  deadlinePassed :: bool

definition VotingPanel_init :: "bool \<Rightarrow> VotingPanel" where
  "VotingPanel_init isExpired =
     \<lparr>votingStatus = None, statusLoading = True, deadlinePassed = isExpired\<rparr>"

text \<open>
  \<open>loadVotingStatus\<close> runs in two parts, before and after its \<^verbatim>\<open>await\<close>. The
  part after it is the same for every request: it keeps no request number and compares
  nothing with the state it finds.
\<close>

definition loadVotingStatus_begin :: "VotingPanel \<Rightarrow> VotingPanel" where
  "loadVotingStatus_begin p = p\<lparr>statusLoading := True\<rparr>"

definition loadVotingStatus_settle :: "fetch_result \<Rightarrow> VotingPanel \<Rightarrow> VotingPanel" where
  "loadVotingStatus_settle r p =
     (case r of
        ResponseOk data \<Rightarrow> p\<lparr>votingStatus := Some data\<rparr>
      | ResponseNotOk \<Rightarrow> p\<lparr>votingStatus := None\<rparr>
      | NetworkError \<Rightarrow> p\<lparr>votingStatus := None\<rparr>)\<lparr>statusLoading := False\<rparr>"

text \<open>The effect on \<^verbatim>\<open>[votingStatus, isExpired]\<close> that sets \<open>deadlinePassed\<close>.\<close>

definition deadline_effect :: "bool \<Rightarrow> VotingPanel \<Rightarrow> VotingPanel" where
  "deadline_effect isExpired p =
     (case votingStatus p of
        Some vs \<Rightarrow> p\<lparr>deadlinePassed := \<not> is_active vs\<rparr>
      | None \<Rightarrow> if isExpired then p\<lparr>deadlinePassed := True\<rparr> else p)"

text \<open>\<^verbatim>\<open>votingStatus?.user_status?.cooldown_active\<close>, read as a condition.\<close>

definition cooldown :: "VotingPanel \<Rightarrow> bool" where
  "cooldown p =
     (case votingStatus p of None \<Rightarrow> False | Some vs \<Rightarrow> cooldown_active (user_status vs))"

definition isButtonDisabled :: "VotingPanel \<Rightarrow> bool" where
  "isButtonDisabled p = (deadlinePassed p \<or> (cooldown p \<and> \<not> deadlinePassed p))"

text \<open>
  What the panel renders: with \<open>isExpired\<close> set, the results view, which has no
  buttons; otherwise the two buttons, each with \<^verbatim>\<open>disabled={isButtonDisabled}\<close>.
\<close>

definition controls_enabled :: "bool \<Rightarrow> VotingPanel \<Rightarrow> bool" where
  "controls_enabled isExpired p = (if isExpired then False else \<not> isButtonDisabled p)"

text \<open>The status the panel hands to the status display.\<close>

definition panel_user_status :: "VotingPanel \<Rightarrow> VotingStatus option" where
  "panel_user_status p = map_option user_status (votingStatus p)"

text \<open>
  The panel as a transition system. The state pairs the \<open>isExpired\<close> prop with the
  component state. A refresh is two events, its start and its completion, tagged with
  the number of the request in initiation order; the tag is bookkeeping of the model
  only, the handlers never see it. The deadline effect runs after every event that can
  change one of its dependencies (running it again on unchanged dependencies changes
  nothing).
\<close>

datatype panel_event =
    RefreshInitiated nat
  | RefreshCompleted nat fetch_result
  | ExpiredChanged bool

fun panel_step :: "bool \<times> VotingPanel \<Rightarrow> panel_event \<Rightarrow> bool \<times> VotingPanel" where
  "panel_step (isExpired, p) (RefreshInitiated k) = (isExpired, loadVotingStatus_begin p)"
| "panel_step (isExpired, p) (RefreshCompleted k r) =
     (isExpired, deadline_effect isExpired (loadVotingStatus_settle r p))"
| "panel_step (isExpired, p) (ExpiredChanged b) = (b, deadline_effect b p)"

fun panel_run :: "bool \<times> VotingPanel \<Rightarrow> panel_event list \<Rightarrow> bool \<times> VotingPanel" where
  "panel_run s [] = s"
| "panel_run s (e # es) = panel_run (panel_step s e) es"

definition panel_start :: "bool \<Rightarrow> bool \<times> VotingPanel" where
  "panel_start isExpired = (isExpired, VotingPanel_init isExpired)"

text \<open>The snapshot a completed request stores, and the outcome of the request that
  completed last in a trace.\<close>

fun snapshot :: "fetch_result \<Rightarrow> VotingStatusData option" where
  "snapshot (ResponseOk data) = Some data"
| "snapshot ResponseNotOk = None"
| "snapshot NetworkError = None"

fun last_completed :: "panel_event list \<Rightarrow> fetch_result option" where
  "last_completed [] = None"
| "last_completed (e # es) =
     (case last_completed es of
        Some r \<Rightarrow> Some r
      | None \<Rightarrow> (case e of RefreshCompleted k r \<Rightarrow> Some r | _ \<Rightarrow> None))"

text \<open>
  The page (ProposalDetailPage.tsx) keeps its own copy of the status for the suggestion
  list; its \<open>loadVotingStatus\<close> stores each response as it completes.
\<close>

definition page_loadVotingStatus_settle ::
  "fetch_result \<Rightarrow> VotingStatusData option \<Rightarrow> VotingStatusData option" where
  "page_loadVotingStatus_settle r votingStatus0 =
     (case r of
        ResponseOk data \<Rightarrow> Some data
      | ResponseNotOk \<Rightarrow> None
      | NetworkError \<Rightarrow> None)"

text \<open>Sample responses: before the user has acted, after a vote for option 1, and
  one of a proposal the server reports closed.\<close>

definition status_not_acted :: VotingStatus where
  "status_not_acted =
     \<lparr>has_voted = False, has_delegated = False, voted_option = None, delegate_info = None,
      selected_option = None, can_act = True, cooldown_active = False\<rparr>"

definition status_voted_1 :: VotingStatus where
  "status_voted_1 =
     \<lparr>has_voted = True, has_delegated = False, voted_option = Some 1, delegate_info = None,
      selected_option = Some \<lparr>option_number = 1, option_text = ''Yes''\<rparr>,
      can_act = True, cooldown_active = False\<rparr>"

definition data_not_acted :: VotingStatusData where
  "data_not_acted =
     \<lparr>time_remaining_seconds = 7200, is_active = True, user_status = status_not_acted\<rparr>"

definition data_voted_1 :: VotingStatusData where
  "data_voted_1 =
     \<lparr>time_remaining_seconds = 7190, is_active = True, user_status = status_voted_1\<rparr>"

definition data_closed :: VotingStatusData where
  "data_closed =
     \<lparr>time_remaining_seconds = 0, is_active = False, user_status = status_not_acted\<rparr>"

section \<open>Vote and delegate modals (VoteModal, src/components/voting/DelegateModal.tsx)\<close>

text \<open>
  \<^verbatim>\<open>String.prototype.trim\<close> and \<^verbatim>\<open>toLowerCase\<close>, on ASCII text: a string is a list
  of 8-bit characters here, and the white space and case pairs beyond ASCII are outside
  the model.
\<close>

definition isWhiteSpace :: "char \<Rightarrow> bool" where
  "isWhiteSpace c =
     (c \<in> set [CHR '' '', CHR 0x09, CHR 0x0A, CHR 0x0B, CHR 0x0C, CHR 0x0D])"

definition trim :: "string \<Rightarrow> string" where
  "trim s = rev (dropWhile isWhiteSpace (rev (dropWhile isWhiteSpace s)))"

definition toLowerCase_char :: "char \<Rightarrow> char" where
  "toLowerCase_char c =
     (case map_of (zip ''ABCDEFGHIJKLMNOPQRSTUVWXYZ'' ''abcdefghijklmnopqrstuvwxyz'') c of
        Some l \<Rightarrow> l
      | None \<Rightarrow> c)"

definition toLowerCase :: "string \<Rightarrow> string" where
  "toLowerCase s = map toLowerCase_char s"

text \<open>The request a handler hands to \<^verbatim>\<open>apiFetch\<close>: the proposal and the body.\<close>

datatype request = PostVote string int | PostDelegate string string

text \<open>Both modals hold a \<open>submitting\<close> flag beside their input.\<close>

record modal_state =
  submitting :: bool

record VoteModal = modal_state +
  selectedOption :: int

record DelegateModal = modal_state +
  targetUser :: string
  organizationUsers :: "OrganizationUser list"

text \<open>
  The state of a modal when it opens: the current vote's option number or 1
  (\<^verbatim>\<open>currentVote?.option_number || 1\<close>), the current delegate's identifier or the
  empty string, and no users loaded yet.
\<close>

definition VoteModal_init :: "ProposalOption option \<Rightarrow> VoteModal" where
  "VoteModal_init currentVote =
     \<lparr>submitting = False,
      selectedOption =
        (case currentVote of
           None \<Rightarrow> 1
         | Some v \<Rightarrow> if option_number v = 0 then 1 else option_number v)\<rparr>"

definition DelegateModal_init :: "delegate_info option \<Rightarrow> DelegateModal" where
  "DelegateModal_init currentDelegate =
     \<lparr>submitting = False,
      targetUser =
        (case currentDelegate of
           None \<Rightarrow> ''''
         | Some d \<Rightarrow> unique_id d),
      organizationUsers = []\<rparr>"

record validation_result =
  valid :: bool
  message :: string

definition validation :: "DelegateModal \<Rightarrow> validation_result" where
  "validation m =
     (if trim (targetUser m) = [] then
        \<lparr>valid = False, message = ''Please enter a username''\<rparr>
      else
        let trimmed = trim (targetUser m);
            userExists =
              list_ex (\<lambda>user. toLowerCase (unique_id user) = toLowerCase trimmed)
                (organizationUsers m)
        in if \<not> userExists then
             \<lparr>valid = False, message = ''User not found in your organization''\<rparr>
           else \<lparr>valid = True, message = ''Valid user''\<rparr>)"

text \<open>
  \<open>handleSubmit\<close> up to its \<^verbatim>\<open>await\<close>: the new state, and the request sent if one
  is. \<^verbatim>\<open>!selectedOption\<close> holds of the number 0 (the selected option is a whole
  number: the radio buttons carry the option numbers). The part after the \<^verbatim>\<open>await\<close>
  ends, on every path, in the \<^verbatim>\<open>finally\<close> block that clears \<open>submitting\<close>.
\<close>

definition vote_handleSubmit :: "Proposal \<Rightarrow> VoteModal \<Rightarrow> VoteModal \<times> request option" where
  "vote_handleSubmit proposal m =
     (if selectedOption m = 0 \<or> submitting m then (m, None)
      else (m\<lparr>submitting := True\<rparr>,
            Some (PostVote (proposal_id proposal) (selectedOption m))))"

definition vote_settled :: "VoteModal \<Rightarrow> VoteModal" where
  "vote_settled m = m\<lparr>submitting := False\<rparr>"

definition delegate_handleSubmit ::
  "Proposal \<Rightarrow> DelegateModal \<Rightarrow> DelegateModal \<times> request option" where
  "delegate_handleSubmit proposal m =
     (if \<not> valid (validation m) \<or> submitting m then (m, None)
      else (m\<lparr>submitting := True\<rparr>,
            Some (PostDelegate (proposal_id proposal) (trim (targetUser m)))))"

definition delegate_settled :: "DelegateModal \<Rightarrow> DelegateModal" where
  "delegate_settled m = m\<lparr>submitting := False\<rparr>"

text \<open>
  The panel opens a modal from its button: \<open>handleVoteClick\<close> and
  \<open>handleDelegateClick\<close> set the show flag, and the panel then mounts a fresh modal,
  whose state starts from the current vote or delegate of the stored status. The
  buttons exist only in the active view and carry \<^verbatim>\<open>disabled={isButtonDisabled}\<close>.
\<close>

definition currentVote :: "VotingPanel \<Rightarrow> ProposalOption option" where
  "currentVote p =
     (case votingStatus p of None \<Rightarrow> None | Some d \<Rightarrow> selected_option (user_status d))"

definition currentDelegate :: "VotingPanel \<Rightarrow> delegate_info option" where
  "currentDelegate p =
     (case votingStatus p of None \<Rightarrow> None | Some d \<Rightarrow> delegate_info (user_status d))"

text \<open>
  A modal with the panel around it and its network: the mounted instance if the modal is
  shown, the number of mountings so far (the number of the current instance), the
  instances whose request is in flight, and the requests sent so far. Each handler runs
  on the state the last event left (the component has rendered again before the next
  event is delivered).

  The events: a click on the panel's button, with the panel's state at that moment; a
  submission of the form; the settling of the request of an instance, whose
  \<^verbatim>\<open>finally\<close> block clears \<open>submitting\<close> of that instance and does nothing to another
  one mounted since; a change of the input; a click on the backdrop, where
  \<open>handleBackdropClick\<close> calls \<open>handleClose\<close>, which tests nothing and has the panel
  unmount the modal; and a click on Cancel or on the close button, both of which carry
  \<^verbatim>\<open>disabled={submitting}\<close>.
\<close>

record 'm modal_ui =
  mounted :: "'m option"
  generation :: nat
  pending :: "nat list"
  sent :: "request list"

definition modal_ui_init :: "'m modal_ui" where
  "modal_ui_init = \<lparr>mounted = None, generation = 0, pending = [], sent = []\<rparr>"

datatype vote_event =
    VoteOpen "bool \<times> VotingPanel"
  | VoteSubmit
  | VoteSettled nat
  | SelectOption int
  | VoteBackdropClick
  | VoteCancelClick

datatype delegate_event =
    DelegateOpen "bool \<times> VotingPanel"
  | DelegateSubmit
  | DelegateSettled nat
  | InputChange string
  | UsersLoaded "OrganizationUser list"
  | DelegateBackdropClick
  | DelegateCancelClick

fun sent_by :: "request option \<Rightarrow> request list" where
  "sent_by None = []"
| "sent_by (Some r) = [r]"

fun vote_step :: "Proposal \<Rightarrow> VoteModal modal_ui \<Rightarrow> vote_event \<Rightarrow> VoteModal modal_ui" where
  "vote_step proposal u (VoteOpen s) =
     (if controls_enabled (fst s) (snd s) \<and> mounted u = None
      then u\<lparr>mounted := Some (VoteModal_init (currentVote (snd s))),
             generation := generation u + 1\<rparr>
      else u)"
| "vote_step proposal u VoteSubmit =
     (case mounted u of
        None \<Rightarrow> u
      | Some m \<Rightarrow>
          (case vote_handleSubmit proposal m of
             (m', req) \<Rightarrow>
               u\<lparr>mounted := Some m',
                  pending := pending u @ map (\<lambda>r. generation u) (sent_by req),
                  sent := sent u @ sent_by req\<rparr>))"
| "vote_step proposal u (VoteSettled k) =
     (if k \<in> set (pending u) then
        (if k = generation u
         then u\<lparr>mounted := map_option vote_settled (mounted u),
                pending := remove1 k (pending u)\<rparr>
         else u\<lparr>pending := remove1 k (pending u)\<rparr>)
      else u)"
| "vote_step proposal u (SelectOption v) =
     u\<lparr>mounted := map_option (\<lambda>m. m\<lparr>selectedOption := v\<rparr>) (mounted u)\<rparr>"
| "vote_step proposal u VoteBackdropClick = u\<lparr>mounted := None\<rparr>"
| "vote_step proposal u VoteCancelClick =
     (case mounted u of
        None \<Rightarrow> u
      | Some m \<Rightarrow> if submitting m then u else u\<lparr>mounted := None\<rparr>)"

fun vote_run :: "Proposal \<Rightarrow> VoteModal modal_ui \<Rightarrow> vote_event list \<Rightarrow> VoteModal modal_ui" where
  "vote_run proposal u [] = u"
| "vote_run proposal u (e # es) = vote_run proposal (vote_step proposal u e) es"

fun delegate_step ::
  "Proposal \<Rightarrow> DelegateModal modal_ui \<Rightarrow> delegate_event \<Rightarrow> DelegateModal modal_ui" where
  "delegate_step proposal u (DelegateOpen s) =
     (if controls_enabled (fst s) (snd s) \<and> mounted u = None
      then u\<lparr>mounted := Some (DelegateModal_init (currentDelegate (snd s))),
             generation := generation u + 1\<rparr>
      else u)"
| "delegate_step proposal u DelegateSubmit =
     (case mounted u of
        None \<Rightarrow> u
      | Some m \<Rightarrow>
          (case delegate_handleSubmit proposal m of
             (m', req) \<Rightarrow>
               u\<lparr>mounted := Some m',
                  pending := pending u @ map (\<lambda>r. generation u) (sent_by req),
                  sent := sent u @ sent_by req\<rparr>))"
| "delegate_step proposal u (DelegateSettled k) =
     (if k \<in> set (pending u) then
        (if k = generation u
         then u\<lparr>mounted := map_option delegate_settled (mounted u),
                pending := remove1 k (pending u)\<rparr>
         else u\<lparr>pending := remove1 k (pending u)\<rparr>)
      else u)"
| "delegate_step proposal u (InputChange v) =
     u\<lparr>mounted := map_option (\<lambda>m. m\<lparr>targetUser := v\<rparr>) (mounted u)\<rparr>"
| "delegate_step proposal u (UsersLoaded us) =
     u\<lparr>mounted := map_option (\<lambda>m. m\<lparr>organizationUsers := us\<rparr>) (mounted u)\<rparr>"
| "delegate_step proposal u DelegateBackdropClick = u\<lparr>mounted := None\<rparr>"
| "delegate_step proposal u DelegateCancelClick =
     (case mounted u of
        None \<Rightarrow> u
      | Some m \<Rightarrow> if submitting m then u else u\<lparr>mounted := None\<rparr>)"

fun delegate_run ::
  "Proposal \<Rightarrow> DelegateModal modal_ui \<Rightarrow> delegate_event list \<Rightarrow> DelegateModal modal_ui" where
  "delegate_run proposal u [] = u"
| "delegate_run proposal u (e # es) = delegate_run proposal (delegate_step proposal u e) es"

text \<open>A panel that has loaded the status of a user who has not acted: the deadline
  has not passed and no cooldown is active, so its buttons are enabled.\<close>

definition panel_loaded :: "bool \<times> VotingPanel" where
  "panel_loaded =
     panel_run (panel_start False)
       [RefreshInitiated 1, RefreshCompleted 1 (ResponseOk data_not_acted)]"

text \<open>Sample inputs: a proposal with two options, and an organization of one user.\<close>

definition sample_proposal :: Proposal where
  "sample_proposal =
     \<lparr>proposal_id = ''p1'', voting_deadline = 1700005400000,
      options = Some [\<lparr>option_number = 1, option_text = ''Yes''\<rparr>,
                      \<lparr>option_number = 2, option_text = ''No''\<rparr>]\<rparr>"

definition user_alice :: OrganizationUser where
  "user_alice = \<lparr>unique_id = ''Alice'', first_name = ''Alice'', last_name = ''Liddell''\<rparr>"

definition status_delegated_alice :: VotingStatus where
  "status_delegated_alice =
     \<lparr>has_voted = False, has_delegated = True, voted_option = None,
      delegate_info = Some \<lparr>unique_id = ''Alice'', name = ''Alice Liddell''\<rparr>,
      selected_option = None, can_act = True, cooldown_active = True\<rparr>"

definition suggestion_vote_1 :: Suggestion where
  "suggestion_vote_1 =
     \<lparr>suggestion_id = ''s1'', suggestion_type = vote_option, target_option_number = Some 1,
      target_user = None, created_at = ''2023-11-14T22:00:00Z''\<rparr>"

definition suggestion_delegate_alice :: Suggestion where
  "suggestion_delegate_alice =
     \<lparr>suggestion_id = ''s2'', suggestion_type = delegate, target_option_number = None,
      target_user = Some ''Alice'', created_at = ''2023-11-14T22:05:00Z''\<rparr>"



section \<open>Predicates used to state the properties\<close>

text \<open>
  A panel state is consistent when the deadline effect has run on the stored status:
  with a status stored, \<open>deadlinePassed\<close> is the negation of its \<open>is_active\<close>.
\<close>

definition panel_consistent :: "bool \<times> VotingPanel \<Rightarrow> bool" where
  "panel_consistent s =
     (case votingStatus (snd s) of
        None \<Rightarrow> True
      | Some vs \<Rightarrow> deadlinePassed (snd s) = (\<not> is_active vs))"

text \<open>An event reports an active proposal when it is a successful status response
  whose \<open>is_active\<close> is true.\<close>

definition reports_active :: "panel_event \<Rightarrow> bool" where
  "reports_active e =
     (case e of RefreshCompleted k (ResponseOk d) \<Rightarrow> is_active d | _ \<Rightarrow> False)"

section \<open>Properties of the deadline classifier\<close>

text \<open>
  Claim C6. For every deadline and current time, \<open>canCreateSuggestions\<close> is true exactly
  when the deadline lies strictly more than 60 minutes (3600000 ms) after now; with
  exactly 60 minutes remaining it is false.
\<close>

theorem canCreateSuggestions_iff:
  "canCreateSuggestions now deadline = (60 * 60 * 1000 < deadline - now)
   \<and> canCreateSuggestions now (now + 60 * 60 * 1000) = False"
  by (simp add: canCreateSuggestions_def Let_def) arith

text \<open>
  Claim C2, as amended. The classifier compares the floored count of whole hours with
  24, not the remaining time with 24 hours: it returns \<open>EXPIRED\<close> exactly when the
  deadline is at or before now, \<open>ENDING_SOON\<close> exactly when the deadline is strictly in
  the future and fewer than 25 hours remain, and \<open>ACTIVE\<close> exactly when 25 hours or
  more remain.
\<close>

theorem getProposalStatus_cases:
  "(getProposalStatus now deadline = EXPIRED) = (deadline \<le> now)
   \<and> (getProposalStatus now deadline = ENDING_SOON)
       = (now < deadline \<and> deadline - now < 25 * (60 * 60 * 1000))
   \<and> (getProposalStatus now deadline = ACTIVE) = (25 * (60 * 60 * 1000) \<le> deadline - now)"
  by (auto simp add: getProposalStatus_def Let_def)

text \<open>
  Claim C2 as stated fails one millisecond past 24 hours: strictly more than 24 hours
  remain, where the claim says \<open>ACTIVE\<close>, and the classifier answers \<open>ENDING_SOON\<close>.
\<close>

theorem getProposalStatus_24h_counterexample:
  "getProposalStatus 1700000000000 (1700000000000 + 24 * 60 * 60 * 1000 + 1) = ENDING_SOON
   \<and> \<not> (1700000000000 + 24 * 60 * 60 * 1000 + 1 - 1700000000000
          \<le> (24 * 60 * 60 * 1000 :: int))"
  by (simp add: getProposalStatus_def)

subsection \<open>The remaining-time string\<close>

lemma left_suffix_not_ended: "xs @ '' left'' \<noteq> ''Voting has ended''"
proof
  assume "xs @ '' left'' = ''Voting has ended''"
  then have "last (xs @ '' left'') = last ''Voting has ended''"
    by (rule arg_cong)
  then show False by simp
qed

lemma getTimeRemaining_ended:
  "(getTimeRemaining now deadline = ''Voting has ended'') = (deadline \<le> now)"
proof (cases "deadline \<le> now")
  case True
  then show ?thesis by (simp add: getTimeRemaining_def)
next
  case False
  have a: "\<And>xs ys. xs @ ys @ '' left'' \<noteq> ''Voting has ended''"
    using left_suffix_not_ended [of "xs @ ys" for xs ys] by simp
  have b: "\<And>xs ys zs. xs @ ys @ zs @ '' left'' \<noteq> ''Voting has ended''"
    using left_suffix_not_ended [of "xs @ ys @ zs" for xs ys zs] by simp
  from False show ?thesis
    unfolding getTimeRemaining_def Let_def using a b by (simp del: append_assoc)
qed

lemma getTimeRemaining_left:
  assumes "now < deadline"
  shows "\<exists>n unit. 0 < n \<and> unit \<in> time_units
           \<and> getTimeRemaining now deadline = show_int n @ '' '' @ unit @ '' left''"
proof -
  let ?ms = "deadline - now"
  let ?d = "?ms div (1000 * 60 * 60 * 24)"
  let ?h = "?ms div (1000 * 60 * 60)"
  let ?m = "?ms div (1000 * 60)"
  from assms have pos: "\<not> ?ms \<le> 0" by simp
  show ?thesis
  proof (cases "?d > 0")
    case True
    with pos have "getTimeRemaining now deadline
        = show_int ?d @ '' '' @ (if ?d = 1 then ''day'' else ''days'') @ '' left''"
      by (simp add: getTimeRemaining_def Let_def)
    moreover have "(if ?d = 1 then ''day'' else ''days'') \<in> time_units"
      by (simp add: time_units_def)
    ultimately show ?thesis using True by blast
  next
    case noday: False
    show ?thesis
    proof (cases "?h > 0")
      case True
      with pos noday have "getTimeRemaining now deadline
          = show_int ?h @ '' '' @ (if ?h = 1 then ''hour'' else ''hours'') @ '' left''"
        by (simp add: getTimeRemaining_def Let_def)
      moreover have "(if ?h = 1 then ''hour'' else ''hours'') \<in> time_units"
        by (simp add: time_units_def)
      ultimately show ?thesis using True by blast
    next
      case False
      with pos noday have "getTimeRemaining now deadline
          = show_int (max 1 ?m) @ '' ''
              @ (if ?m = 1 then ''minute'' else ''minutes'') @ '' left''"
        by (simp add: getTimeRemaining_def Let_def)
      moreover have "(if ?m = 1 then ''minute'' else ''minutes'') \<in> time_units"
        by (simp add: time_units_def)
      moreover have "0 < max 1 ?m" by simp
      ultimately show ?thesis by blast
    qed
  qed
qed

text \<open>
  Claim C10. At a fixed current time the two deadline functions agree: the status is
  \<open>EXPIRED\<close> exactly when the remaining-time string is "Voting has ended", and
  whenever the status is \<open>ACTIVE\<close> or \<open>ENDING_SOON\<close> the string is a positive number,
  a unit (day, hour or minute, singular or plural) and "left".
\<close>

theorem status_agrees_with_time_remaining:
  "(getProposalStatus now deadline = EXPIRED)
     = (getTimeRemaining now deadline = ''Voting has ended'')
   \<and> (getProposalStatus now deadline \<in> {ACTIVE, ENDING_SOON} \<longrightarrow>
        (\<exists>n unit. 0 < n \<and> unit \<in> time_units
           \<and> getTimeRemaining now deadline = show_int n @ '' '' @ unit @ '' left''))"
proof -
  have e: "(getProposalStatus now deadline = EXPIRED) = (deadline \<le> now)"
    by (simp add: getProposalStatus_def Let_def)
  have "getProposalStatus now deadline \<in> {ACTIVE, ENDING_SOON} \<Longrightarrow> now < deadline"
    using e by (cases "deadline \<le> now") auto
  then show ?thesis
    using e getTimeRemaining_ended [of now deadline] getTimeRemaining_left [of now deadline]
    by blast
qed

text \<open>Ninety minutes before the deadline: \<open>ENDING_SOON\<close> and "1 hour left".\<close>

theorem status_agrees_with_time_remaining_witness:
  "getProposalStatus 1700000000000 1700005400000 \<in> {ACTIVE, ENDING_SOON}
   \<and> (\<exists>n unit. 0 < n \<and> unit \<in> time_units
           \<and> getTimeRemaining 1700000000000 1700005400000
               = show_int n @ '' '' @ unit @ '' left'')
   \<and> getTimeRemaining 1700000000000 1700005400000 = ''1 hour left''"
proof -
  have s: "getProposalStatus 1700000000000 1700005400000 = ENDING_SOON"
    by (simp add: getProposalStatus_def)
  have t: "getTimeRemaining 1700000000000 1700005400000 = ''1 hour left''"
    by (simp add: getTimeRemaining_def show_int_def show_nat.simps)
  from s t status_agrees_with_time_remaining [of 1700000000000 1700005400000]
  show ?thesis by simp
qed

section \<open>Properties of the suggestion matcher\<close>

text \<open>
  Claim C3. A \<open>vote_option\<close> suggestion is applied exactly when the status is known,
  \<open>has_voted\<close> holds and \<open>voted_option\<close> equals the suggestion's
  \<open>target_option_number\<close>; a \<open>delegate\<close> suggestion exactly when the status is known,
  \<open>has_delegated\<close> holds and the delegate's \<open>unique_id\<close> equals the suggestion's
  \<open>target_user\<close>; with an unknown status no suggestion is applied.
\<close>

theorem isSuggestionApplied_iff:
  "(suggestion_type s = vote_option \<longrightarrow>
      isSuggestionApplied st s =
        (\<exists>v. st = Some v \<and> has_voted v \<and> voted_option v = target_option_number s))
   \<and> (suggestion_type s = delegate \<longrightarrow>
      isSuggestionApplied st s =
        (\<exists>v. st = Some v \<and> has_delegated v
           \<and> map_option unique_id (delegate_info v) = target_user s))
   \<and> isSuggestionApplied None s = False"
  by (cases st) (simp_all add: isSuggestionApplied_def)

text \<open>A status that matches, one that does not, for a suggestion of each type.\<close>

theorem isSuggestionApplied_iff_witness:
  "suggestion_type suggestion_vote_1 = vote_option
   \<and> isSuggestionApplied (Some status_voted_1) suggestion_vote_1
   \<and> \<not> isSuggestionApplied (Some status_not_acted) suggestion_vote_1
   \<and> suggestion_type suggestion_delegate_alice = delegate
   \<and> isSuggestionApplied (Some status_delegated_alice) suggestion_delegate_alice
   \<and> \<not> isSuggestionApplied (Some status_voted_1) suggestion_delegate_alice"
  using isSuggestionApplied_iff [of suggestion_vote_1 "Some status_voted_1"]
    isSuggestionApplied_iff [of suggestion_vote_1 "Some status_not_acted"]
    isSuggestionApplied_iff [of suggestion_delegate_alice "Some status_delegated_alice"]
    isSuggestionApplied_iff [of suggestion_delegate_alice "Some status_voted_1"]
  by (simp add: suggestion_vote_1_def suggestion_delegate_alice_def status_voted_1_def
        status_not_acted_def status_delegated_alice_def)

section \<open>Properties of the voting panel\<close>

lemma votingStatus_panel_step:
  "votingStatus (snd (panel_step s e)) =
     (case e of RefreshCompleted k r \<Rightarrow> snapshot r | _ \<Rightarrow> votingStatus (snd s))"
  by (cases s; cases e)
     (auto simp: loadVotingStatus_begin_def loadVotingStatus_settle_def deadline_effect_def
           split: fetch_result.splits option.splits)

lemma votingStatus_panel_run:
  "votingStatus (snd (panel_run s es)) =
     (case last_completed es of None \<Rightarrow> votingStatus (snd s) | Some r \<Rightarrow> snapshot r)"
proof (induction es arbitrary: s)
  case Nil
  show ?case by simp
next
  case (Cons e es)
  show ?case
    by (cases e) (simp_all add: Cons.IH votingStatus_panel_step split: option.splits)
qed

text \<open>
  Claim C1, as amended. The stored snapshot is always the result of the refresh that
  completed last, whatever the order of initiation. For two refreshes, the second
  initiated after the first: when the responses arrive in initiation order the later
  refresh's result is stored; when they arrive out of order, the older response is
  applied last and stays. The page's own copy of the status behaves the same way.
\<close>

theorem refresh_last_completed_wins:
  "votingStatus (snd (panel_run s es)) =
     (case last_completed es of None \<Rightarrow> votingStatus (snd s) | Some r \<Rightarrow> snapshot r)
   \<and> votingStatus (snd (panel_run s
        [RefreshInitiated 1, RefreshInitiated 2, RefreshCompleted 1 r1, RefreshCompleted 2 r2]))
       = snapshot r2
   \<and> votingStatus (snd (panel_run s
        [RefreshInitiated 1, RefreshInitiated 2, RefreshCompleted 2 r2, RefreshCompleted 1 r1]))
       = snapshot r1
   \<and> page_loadVotingStatus_settle r1 (page_loadVotingStatus_settle r2 v) = snapshot r1"
proof -
  have "page_loadVotingStatus_settle r1 (page_loadVotingStatus_settle r2 v) = snapshot r1"
    by (cases r1) (simp_all add: page_loadVotingStatus_settle_def)
  then show ?thesis
    by (simp add: votingStatus_panel_run votingStatus_panel_step del: panel_run.simps)
qed

text \<open>
  Claim C1 as stated fails when the responses cross. The refresh on mount (request 1)
  is answered after the refresh that follows a vote (request 2): the panel ends with the
  older answer, in which the user has not voted.
\<close>

theorem refresh_out_of_order_counterexample:
  "votingStatus (snd (panel_run (panel_start False)
      [RefreshInitiated 1, RefreshInitiated 2,
       RefreshCompleted 2 (ResponseOk data_voted_1),
       RefreshCompleted 1 (ResponseOk data_not_acted)])) = Some data_not_acted
   \<and> Some data_not_acted \<noteq> snapshot (ResponseOk data_voted_1)"
  by (simp add: panel_start_def VotingPanel_init_def loadVotingStatus_begin_def
        loadVotingStatus_settle_def deadline_effect_def data_not_acted_def data_voted_1_def)

text \<open>
  Claim C7. For every value of the deadline flag and every status snapshot, the vote
  and delegate buttons are enabled exactly when the deadline has not passed and no
  cooldown is active; when either holds, both are disabled. An absent snapshot has no
  active cooldown. The same holds of the buttons as rendered, where a deadline that has
  passed by the client's clock (\<open>isExpired\<close>) removes them altogether.
\<close>

theorem controls_enabled_iff:
  "(\<not> isButtonDisabled p) =
     (\<not> deadlinePassed p
      \<and> \<not> (\<exists>vs. votingStatus p = Some vs \<and> cooldown_active (user_status vs)))
   \<and> ((deadlinePassed p \<or> cooldown p) = isButtonDisabled p)
   \<and> controls_enabled isExpired p =
       (\<not> isExpired \<and> \<not> deadlinePassed p
        \<and> \<not> (\<exists>vs. votingStatus p = Some vs \<and> cooldown_active (user_status vs)))"
  by (cases "votingStatus p")
     (auto simp: controls_enabled_def isButtonDisabled_def cooldown_def)

subsection \<open>The deadline flag\<close>

lemma panel_consistent_start: "panel_consistent (panel_start b)"
  by (simp add: panel_consistent_def panel_start_def VotingPanel_init_def)

lemma panel_consistent_step: "panel_consistent s \<Longrightarrow> panel_consistent (panel_step s e)"
  by (cases s; cases e)
     (auto simp: panel_consistent_def loadVotingStatus_begin_def loadVotingStatus_settle_def
        deadline_effect_def split: option.splits fetch_result.splits)

lemma panel_consistent_run: "panel_consistent s \<Longrightarrow> panel_consistent (panel_run s es)"
  by (induction es arbitrary: s) (simp_all add: panel_consistent_step)

lemma panel_run_append: "panel_run s (xs @ ys) = panel_run (panel_run s xs) ys"
  by (induction xs arbitrary: s) simp_all

lemma deadlinePassed_step:
  "panel_consistent s \<Longrightarrow> deadlinePassed (snd s) \<Longrightarrow> \<not> reports_active e
     \<Longrightarrow> deadlinePassed (snd (panel_step s e))"
  by (cases s; cases e)
     (auto simp: panel_consistent_def reports_active_def loadVotingStatus_begin_def
        loadVotingStatus_settle_def deadline_effect_def
        split: option.splits fetch_result.splits)

lemma deadlinePassed_run:
  "panel_consistent s \<Longrightarrow> deadlinePassed (snd s) \<Longrightarrow> list_all (\<lambda>e. \<not> reports_active e) es
     \<Longrightarrow> deadlinePassed (snd (panel_run s es))"
proof (induction es arbitrary: s)
  case Nil
  then show ?case by simp
next
  case (Cons e es)
  from Cons.prems have "panel_consistent (panel_step s e)"
    and "deadlinePassed (snd (panel_step s e))"
    by (simp_all add: panel_consistent_step deadlinePassed_step)
  with Cons.IH Cons.prems(3) show ?case by simp
qed

lemma deadlinePassed_after_response:
  "deadlinePassed (snd (panel_step s (RefreshCompleted k (ResponseOk d)))) = (\<not> is_active d)"
  by (cases s) (simp add: loadVotingStatus_settle_def deadline_effect_def)

lemma controls_after_response:
  "controls_enabled (fst (panel_step s (RefreshCompleted k (ResponseOk d))))
       (snd (panel_step s (RefreshCompleted k (ResponseOk d))))
     = (\<not> fst s \<and> is_active d \<and> \<not> cooldown_active (user_status d))"
  by (cases s)
     (auto simp add: loadVotingStatus_settle_def deadline_effect_def controls_enabled_def
        isButtonDisabled_def cooldown_def)

text \<open>
  Claim C8, as amended. Expiry by the client's clock is never left: a deadline the
  classifier calls \<open>EXPIRED\<close> is \<open>EXPIRED\<close> at every later time. The panel's own
  \<open>deadlinePassed\<close> flag, once set, stays set over every run of events in which no
  successful status response reports \<open>is_active = true\<close> (failed refreshes, responses
  with \<open>is_active = false\<close>, changes of the \<open>isExpired\<close> prop); a successful response
  always sets the flag to the negation of its \<open>is_active\<close>, so one that reports an
  active proposal clears it. After a successful response the buttons are enabled
  exactly when \<open>isExpired\<close> is not set, the response reports an active proposal and it
  reports no active cooldown.
\<close>

theorem expired_until_active_response:
  assumes "deadlinePassed (snd (panel_run (panel_start b) es0))"
    and "list_all (\<lambda>e. \<not> reports_active e) es"
    and "getProposalStatus now deadline = EXPIRED"
    and "now \<le> now'"
  shows "deadlinePassed (snd (panel_run (panel_start b) (es0 @ es)))
     \<and> deadlinePassed (snd (panel_step (panel_run (panel_start b) (es0 @ es))
          (RefreshCompleted k (ResponseOk d)))) = (\<not> is_active d)
     \<and> controls_enabled
          (fst (panel_step (panel_run (panel_start b) (es0 @ es))
             (RefreshCompleted k (ResponseOk d))))
          (snd (panel_step (panel_run (panel_start b) (es0 @ es))
             (RefreshCompleted k (ResponseOk d))))
        = (\<not> fst (panel_run (panel_start b) (es0 @ es)) \<and> is_active d
           \<and> \<not> cooldown_active (user_status d))
     \<and> getProposalStatus now' deadline = EXPIRED"
proof -
  have "panel_consistent (panel_run (panel_start b) es0)"
    by (simp add: panel_consistent_run panel_consistent_start)
  with assms(1,2) have "deadlinePassed (snd (panel_run (panel_run (panel_start b) es0) es))"
    by (simp add: deadlinePassed_run)
  moreover from assms(3,4) have "getProposalStatus now' deadline = EXPIRED"
    by (simp add: getProposalStatus_def Let_def split: if_splits)
  ultimately show ?thesis
    by (simp add: panel_run_append deadlinePassed_after_response controls_after_response)
qed

text \<open>The server reports the proposal closed; a failed refresh, a change of the prop
  and a second closed response follow, and the flag stays set.\<close>

theorem expired_until_active_response_witness:
  "deadlinePassed (snd (panel_run (panel_start False)
       [RefreshInitiated 1, RefreshCompleted 1 (ResponseOk data_closed)]))
   \<and> list_all (\<lambda>e. \<not> reports_active e)
       [RefreshInitiated 2, RefreshCompleted 2 NetworkError, ExpiredChanged False,
        RefreshInitiated 3, RefreshCompleted 3 (ResponseOk data_closed)]
   \<and> getProposalStatus 1700005400000 1700005400000 = EXPIRED
   \<and> (1700005400000 :: int) \<le> 1700005460000
   \<and> deadlinePassed (snd (panel_run (panel_start False)
        ([RefreshInitiated 1, RefreshCompleted 1 (ResponseOk data_closed)]
          @ [RefreshInitiated 2, RefreshCompleted 2 NetworkError, ExpiredChanged False,
             RefreshInitiated 3, RefreshCompleted 3 (ResponseOk data_closed)])))
   \<and> \<not> deadlinePassed (snd (panel_step (panel_run (panel_start False)
        ([RefreshInitiated 1, RefreshCompleted 1 (ResponseOk data_closed)]
          @ [RefreshInitiated 2, RefreshCompleted 2 NetworkError, ExpiredChanged False,
             RefreshInitiated 3, RefreshCompleted 3 (ResponseOk data_closed)]))
        (RefreshCompleted 4 (ResponseOk data_not_acted))))
   \<and> getProposalStatus 1700005460000 1700005400000 = EXPIRED"
proof -
  have a: "deadlinePassed (snd (panel_run (panel_start False)
       [RefreshInitiated 1, RefreshCompleted 1 (ResponseOk data_closed)]))"
    by (simp add: panel_start_def VotingPanel_init_def loadVotingStatus_begin_def
         loadVotingStatus_settle_def deadline_effect_def data_closed_def)
  have b: "list_all (\<lambda>e. \<not> reports_active e)
       [RefreshInitiated 2, RefreshCompleted 2 NetworkError, ExpiredChanged False,
        RefreshInitiated 3, RefreshCompleted 3 (ResponseOk data_closed)]"
    by (simp add: reports_active_def data_closed_def)
  have c: "getProposalStatus 1700005400000 1700005400000 = EXPIRED"
    by (simp add: getProposalStatus_def)
  have d: "(1700005400000 :: int) \<le> 1700005460000" by simp
  have e: "is_active data_not_acted" by (simp add: data_not_acted_def)
  from a b c d e expired_until_active_response [OF a b c d, of 4 data_not_acted]
  show ?thesis by blast
qed

text \<open>
  Claim C8 as stated fails on a later status response. The client's clock has not
  reached the deadline; the first response reports the proposal closed and the flag is
  set; the second reports it active, and the flag is cleared and the buttons are enabled
  again.
\<close>

theorem expired_left_counterexample:
  "deadlinePassed (snd (panel_run (panel_start False)
       [RefreshInitiated 1, RefreshCompleted 1 (ResponseOk data_closed)]))
   \<and> \<not> deadlinePassed (snd (panel_run (panel_start False)
       [RefreshInitiated 1, RefreshCompleted 1 (ResponseOk data_closed),
        RefreshInitiated 2, RefreshCompleted 2 (ResponseOk data_not_acted)]))
   \<and> \<not> isButtonDisabled (snd (panel_run (panel_start False)
       [RefreshInitiated 1, RefreshCompleted 1 (ResponseOk data_closed),
        RefreshInitiated 2, RefreshCompleted 2 (ResponseOk data_not_acted)]))"
  by (simp add: panel_start_def VotingPanel_init_def loadVotingStatus_begin_def
        loadVotingStatus_settle_def deadline_effect_def data_closed_def data_not_acted_def
        status_not_acted_def isButtonDisabled_def cooldown_def)

subsection \<open>A failed refresh\<close>

lemma snapshot_failed: "r \<in> {ResponseNotOk, NetworkError} \<Longrightarrow> snapshot r = None"
  by auto

lemma page_settle_snapshot: "page_loadVotingStatus_settle r v = snapshot r"
  by (cases r) (simp_all add: page_loadVotingStatus_settle_def)

lemma panel_settle_snapshot:
  "loadVotingStatus_settle r p = p\<lparr>votingStatus := snapshot r, statusLoading := False\<rparr>"
  by (cases r) (simp_all add: loadVotingStatus_settle_def)

text \<open>
  Claim C9, as amended. After a failed refresh (a response that is not ok, or a network
  error) the stored status is the unknown value, in the panel and on the page. The
  display then reports that the status could not be loaded, where a known status of a
  user who has not acted reports non-participation, and no suggestion is marked applied.
  Action eligibility is not suppressed: the unknown status counts as no cooldown, so
  the vote and delegate buttons are disabled exactly when the deadline flag is set, and a
  suggestion's Apply button exactly when it is being applied or the deadline has been
  reached.
\<close>

theorem failed_refresh_unknown:
  assumes "r \<in> {ResponseNotOk, NetworkError}"
  shows "votingStatus (loadVotingStatus_settle r p) = None
     \<and> page_loadVotingStatus_settle r v = None
     \<and> VotingStatus_render (panel_user_status (loadVotingStatus_settle r p))
          (statusLoading (loadVotingStatus_settle r p)) = UnableToLoad
     \<and> (\<not> has_voted st \<and> \<not> has_delegated st \<longrightarrow>
          VotingStatus_render (Some st) False = NotParticipated)
     \<and> \<not> isSuggestionApplied (map_option user_status (page_loadVotingStatus_settle r v)) s
     \<and> isButtonDisabled (snd (panel_step (b, p) (RefreshCompleted k r)))
          = (deadlinePassed p \<or> b)
     \<and> applyDisabled now proposal (map_option user_status (page_loadVotingStatus_settle r v))
          isApplying s = (isApplying \<or> \<not> isVotingActive now proposal)"
proof -
  from assms have n: "snapshot r = None" by (rule snapshot_failed)
  have 1: "votingStatus (loadVotingStatus_settle r p) = None"
    by (simp add: panel_settle_snapshot n)
  have 2: "page_loadVotingStatus_settle r v = None"
    by (simp add: page_settle_snapshot n)
  have 3: "VotingStatus_render (panel_user_status (loadVotingStatus_settle r p))
          (statusLoading (loadVotingStatus_settle r p)) = UnableToLoad"
    by (simp add: panel_settle_snapshot n panel_user_status_def VotingStatus_render_def)
  have 4: "\<not> has_voted st \<and> \<not> has_delegated st \<longrightarrow>
          VotingStatus_render (Some st) False = NotParticipated"
    by (simp add: VotingStatus_render_def)
  have 5: "\<not> isSuggestionApplied (map_option user_status (page_loadVotingStatus_settle r v)) s"
    by (simp add: 2 isSuggestionApplied_def)
  have 6: "isButtonDisabled (snd (panel_step (b, p) (RefreshCompleted k r)))
          = (deadlinePassed p \<or> b)"
    by (auto simp add: panel_settle_snapshot n deadline_effect_def isButtonDisabled_def
          cooldown_def)
  have 7: "applyDisabled now proposal
          (map_option user_status (page_loadVotingStatus_settle r v)) isApplying s
          = (isApplying \<or> \<not> isVotingActive now proposal)"
    by (auto simp add: 2 applyDisabled_def isSuggestionApplied_def)
  from 1 2 3 4 5 6 7 show ?thesis by blast
qed

text \<open>A network error on the first refresh of a panel whose deadline has not passed.\<close>

theorem failed_refresh_unknown_witness:
  "NetworkError \<in> {ResponseNotOk, NetworkError}
   \<and> \<not> has_voted status_not_acted \<and> \<not> has_delegated status_not_acted
   \<and> votingStatus (loadVotingStatus_settle NetworkError (VotingPanel_init False)) = None
   \<and> VotingStatus_render (Some status_not_acted) False = NotParticipated
   \<and> VotingStatus_render
        (panel_user_status (loadVotingStatus_settle NetworkError (VotingPanel_init False)))
        (statusLoading (loadVotingStatus_settle NetworkError (VotingPanel_init False)))
       = UnableToLoad
   \<and> \<not> isButtonDisabled
         (snd (panel_step (False, VotingPanel_init False) (RefreshCompleted 1 NetworkError)))"
proof -
  have h: "NetworkError \<in> {ResponseNotOk, NetworkError}" by simp
  have a: "\<not> has_voted status_not_acted \<and> \<not> has_delegated status_not_acted"
    by (simp add: status_not_acted_def)
  have d: "\<not> deadlinePassed (VotingPanel_init False)"
    by (simp add: VotingPanel_init_def)
  from h a d
    failed_refresh_unknown [OF h, of "VotingPanel_init False" None status_not_acted
      suggestion_vote_1 False 1 0 sample_proposal False]
  show ?thesis by simp
qed

text \<open>
  Claim C9 as stated fails in its last part. After a failed refresh the status is
  unknown, and still the vote and delegate buttons are enabled, and so is the Apply
  button of a suggestion, ninety minutes before the deadline.
\<close>

theorem failed_refresh_controls_counterexample:
  "votingStatus (snd (panel_step (panel_start False) (RefreshCompleted 1 ResponseNotOk))) = None
   \<and> \<not> isButtonDisabled
         (snd (panel_step (panel_start False) (RefreshCompleted 1 ResponseNotOk)))
   \<and> \<not> applyDisabled 1700000000000 sample_proposal
         (map_option user_status (page_loadVotingStatus_settle ResponseNotOk None))
         False suggestion_vote_1"
  by (simp add: panel_start_def VotingPanel_init_def loadVotingStatus_settle_def
        deadline_effect_def isButtonDisabled_def cooldown_def applyDisabled_def
        isSuggestionApplied_def isVotingActive_def page_loadVotingStatus_settle_def
        sample_proposal_def)

section \<open>Properties of the modals\<close>





subsection \<open>One submission at a time\<close>

text \<open>
  Within a mounted instance the guard holds: while \<open>submitting\<close> is set, a submission
  sends nothing and changes nothing, and Cancel and the close button do nothing.
\<close>

lemma vote_submit_while_submitting:
  "mounted u = Some m \<Longrightarrow> submitting m \<Longrightarrow> vote_step proposal u VoteSubmit = u"
  by (simp add: vote_handleSubmit_def)

lemma delegate_submit_while_submitting:
  "mounted u = Some m \<Longrightarrow> submitting m \<Longrightarrow> delegate_step proposal u DelegateSubmit = u"
  by (simp add: delegate_handleSubmit_def)

lemma vote_cancel_while_submitting:
  "mounted u = Some m \<Longrightarrow> submitting m \<Longrightarrow> vote_step proposal u VoteCancelClick = u"
  by simp

lemma delegate_cancel_while_submitting:
  "mounted u = Some m \<Longrightarrow> submitting m \<Longrightarrow> delegate_step proposal u DelegateCancelClick = u"
  by simp

lemma panel_loaded_enabled: "controls_enabled (fst panel_loaded) (snd panel_loaded)"
  by (simp add: panel_loaded_def panel_start_def VotingPanel_init_def
        loadVotingStatus_begin_def loadVotingStatus_settle_def deadline_effect_def
        controls_enabled_def isButtonDisabled_def cooldown_def data_not_acted_def
        status_not_acted_def)

lemma currentVote_panel_loaded: "currentVote (snd panel_loaded) = None"
  by (simp add: panel_loaded_def panel_start_def VotingPanel_init_def
        loadVotingStatus_begin_def loadVotingStatus_settle_def deadline_effect_def
        currentVote_def data_not_acted_def status_not_acted_def)

lemma currentDelegate_panel_loaded: "currentDelegate (snd panel_loaded) = None"
  by (simp add: panel_loaded_def panel_start_def VotingPanel_init_def
        loadVotingStatus_begin_def loadVotingStatus_settle_def deadline_effect_def
        currentDelegate_def data_not_acted_def status_not_acted_def)

text \<open>
  Claim C5, on the input where the code departs from it. The claim: while one vote or
  delegate submission is pending for a proposal, a second submission attempt for the
  same action is rejected by the client and sends no request. The code: the user
  submits a vote; while the request is pending a click on the backdrop closes the modal,
  which nothing prevents; the panel's button, still enabled, opens a fresh modal whose
  \<open>submitting\<close> flag is clear; its submission is sent. Two requests for the same action
  and proposal are then in flight together, the first of instance 1 and the second of
  instance 2. The same run of a delegation sends two delegate requests.
\<close>

theorem second_submission_while_pending:
  "pending (vote_run sample_proposal modal_ui_init
      [VoteOpen panel_loaded, VoteSubmit, VoteBackdropClick,
       VoteOpen panel_loaded, VoteSubmit]) = [1, 2]
   \<and> sent (vote_run sample_proposal modal_ui_init
      [VoteOpen panel_loaded, VoteSubmit, VoteBackdropClick,
       VoteOpen panel_loaded, VoteSubmit]) = [PostVote ''p1'' 1, PostVote ''p1'' 1]
   \<and> pending (delegate_run sample_proposal modal_ui_init
      [DelegateOpen panel_loaded, UsersLoaded [user_alice], InputChange ''alice'',
       DelegateSubmit, DelegateBackdropClick,
       DelegateOpen panel_loaded, UsersLoaded [user_alice], InputChange ''alice'',
       DelegateSubmit]) = [1, 2]
   \<and> sent (delegate_run sample_proposal modal_ui_init
      [DelegateOpen panel_loaded, UsersLoaded [user_alice], InputChange ''alice'',
       DelegateSubmit, DelegateBackdropClick,
       DelegateOpen panel_loaded, UsersLoaded [user_alice], InputChange ''alice'',
       DelegateSubmit]) = [PostDelegate ''p1'' ''alice'', PostDelegate ''p1'' ''alice'']"
proof -
  have t: "trim ''alice'' = ''alice''"
    by (simp add: trim_def isWhiteSpace_def)
  have l: "toLowerCase ''Alice'' = ''alice''" "toLowerCase ''alice'' = ''alice''"
    by (simp_all add: toLowerCase_def toLowerCase_char_def)
  have v: "vote_run sample_proposal modal_ui_init
      [VoteOpen panel_loaded, VoteSubmit, VoteBackdropClick,
       VoteOpen panel_loaded, VoteSubmit]
     = \<lparr>mounted = Some \<lparr>submitting = True, selectedOption = 1\<rparr>, generation = 2,
        pending = [1, 2], sent = [PostVote ''p1'' 1, PostVote ''p1'' 1]\<rparr>"
    by (simp add: modal_ui_init_def panel_loaded_enabled currentVote_panel_loaded
          VoteModal_init_def vote_handleSubmit_def sample_proposal_def)
  have d: "delegate_run sample_proposal modal_ui_init
      [DelegateOpen panel_loaded, UsersLoaded [user_alice], InputChange ''alice'',
       DelegateSubmit, DelegateBackdropClick,
       DelegateOpen panel_loaded, UsersLoaded [user_alice], InputChange ''alice'',
       DelegateSubmit]
     = \<lparr>mounted = Some \<lparr>submitting = True, targetUser = ''alice'',
                          organizationUsers = [user_alice]\<rparr>, generation = 2,
        pending = [1, 2],
        sent = [PostDelegate ''p1'' ''alice'', PostDelegate ''p1'' ''alice'']\<rparr>"
    by (simp add: modal_ui_init_def panel_loaded_enabled currentDelegate_panel_loaded
          DelegateModal_init_def delegate_handleSubmit_def validation_def Let_def t l
          sample_proposal_def user_alice_def)
  show ?thesis by (simp only: v d) simp
qed

end
